theory Spec2Isabelle
  imports Complex_Main "HOL-Library.Multiset" "HOL-Library.Char_ord" "HOL-Library.List_Lexorder"
    "HOL-Library.Product_Lexorder"
begin

section \<open>Python values\<close>

text \<open>
  The values that travel through \<^verbatim>\<open>app.py\<close>: cells of the raw event mappings, JSON
  documents, response bodies. A mapping is an association list in insertion order
  (Python mappings keep it); its keys are strings, as every key of a JSON object is,
  and each key occurs once. Floating-point cells are not part of the value model.
\<close>

datatype pyval =
    PNone
  | PBool bool
  | PInt int
  | PStr string
  | PList "pyval list"
  | PDict "(string \<times> pyval) list"

datatype py_error =
    AttributeError
  | TypeError
  | ZoneInfoNotFoundError

section \<open>Business-hours classification\<close>

text \<open>
  \<^verbatim>\<open>business_bucket(hour, start_h, end_h)\<close>, lines 67-74. The first argument
  \<open>to_int\<close> stands for Python's builtin \<^verbatim>\<open>int()\<close> on the type of the hour value:
  \<open>None\<close> where \<^verbatim>\<open>int(hour)\<close> raises (the \<^verbatim>\<open>except Exception\<close> branch).
\<close>

definition business_bucket :: "('h \<Rightarrow> int option) \<Rightarrow> 'h \<Rightarrow> int \<Rightarrow> int \<Rightarrow> string" where
  "business_bucket to_int hour start_h end_h =
     (case to_int hour of
        None \<Rightarrow> ''Fora''
      | Some h \<Rightarrow>
          if start_h \<le> end_h
          then (if start_h \<le> h \<and> h < end_h then ''Dentro'' else ''Fora'')
          else (if h \<ge> start_h \<or> h < end_h then ''Dentro'' else ''Fora''))"

text \<open>
  \<^verbatim>\<open>int()\<close> on the values of \<^typ>\<open>pyval\<close> that are numbers already; every other
  value is left to the caller's \<open>to_int\<close>. \<^verbatim>\<open>int(None)\<close>, \<^verbatim>\<open>int([...])\<close> and
  \<^verbatim>\<open>int({...})\<close> raise TypeError.
\<close>

fun int_of_number :: "pyval \<Rightarrow> int option" where
  "int_of_number (PInt i) = Some i"
| "int_of_number (PBool b) = Some (if b then 1 else 0)"
| "int_of_number _ = None"

section \<open>Strings\<close>

text \<open>
  Strings are lists of 8-bit characters, so the model is exact on ASCII text.
  \<open>sq\<close>, \<open>dq\<close> and \<open>bs\<close> are the single quote, the double quote and the backslash.
\<close>

definition sq :: char where "sq = CHR 0x27"
definition dq :: char where "dq = CHR 0x22"
definition bs :: char where "bs = CHR 0x5C"

text \<open>
  The ASCII characters that \<^verbatim>\<open>str.strip()\<close> removes and that \<^verbatim>\<open>\s\<close> matches:
  codes 9-13 and 28-32.
\<close>

definition is_space :: "char \<Rightarrow> bool" where
  "is_space c = (let n = (of_char c :: nat) in (9 \<le> n \<and> n \<le> 13) \<or> (28 \<le> n \<and> n \<le> 32))"

definition strip :: "string \<Rightarrow> string" where
  "strip s = rev (dropWhile is_space (rev (dropWhile is_space s)))"

text \<open>\<^verbatim>\<open>s.replace("'", '"')\<close>\<close>

definition replace_quotes :: "string \<Rightarrow> string" where
  "replace_quotes s = map (\<lambda>c. if c = sq then dq else c) s"

fun join :: "string \<Rightarrow> string list \<Rightarrow> string" where
  "join sep [] = []"
| "join sep [x] = x"
| "join sep (x # y # ys) = x @ sep @ join sep (y # ys)"

fun digits :: "nat \<Rightarrow> string" where
  "digits n =
     (if n < 10 then [''0123456789'' ! n]
      else digits (n div 10) @ [''0123456789'' ! (n mod 10)])"

declare digits.simps [simp del]

definition str_int :: "int \<Rightarrow> string" where
  "str_int i = (if i < 0 then CHR ''-'' # digits (nat (- i)) else digits (nat i))"

text \<open>
  \<^verbatim>\<open>repr()\<close> of a string: double quotes when the text holds a single quote and no
  double quote, single quotes otherwise; the quote and the backslash are escaped, tab,
  newline and carriage return are written with their letters and the other control
  characters as \<^verbatim>\<open>\xNN\<close>.
\<close>

definition repr_char :: "char \<Rightarrow> char \<Rightarrow> string" where
  "repr_char q c =
     (if c = q \<or> c = bs then [bs, c]
      else if c = CHR 0x09 then [bs, CHR ''t'']
      else if c = CHR 0x0A then [bs, CHR ''n'']
      else if c = CHR 0x0D then [bs, CHR ''r'']
      else if (of_char c :: nat) < 32 \<or> c = CHR 0x7F
        then [bs, CHR ''x'', ''0123456789abcdef'' ! ((of_char c :: nat) div 16),
              ''0123456789abcdef'' ! ((of_char c :: nat) mod 16)]
      else [c])"

definition repr_str :: "string \<Rightarrow> string" where
  "repr_str s =
     (let q = (if sq \<in> set s \<and> dq \<notin> set s then dq else sq)
      in q # concat (map (repr_char q) s) @ [q])"

fun py_repr :: "pyval \<Rightarrow> string" where
  "py_repr PNone = ''None''"
| "py_repr (PBool b) = (if b then ''True'' else ''False'')"
| "py_repr (PInt i) = str_int i"
| "py_repr (PStr s) = repr_str s"
| "py_repr (PList xs) = ''['' @ join '', '' (map py_repr xs) @ '']''"
| "py_repr (PDict kvs) =
     ''{'' @ join '', '' (map (\<lambda>(k, v). repr_str k @ '': '' @ py_repr v) kvs) @ ''}''"

text \<open>\<^verbatim>\<open>str(x)\<close>: a string is itself, every other value is printed by \<^verbatim>\<open>repr\<close>.\<close>

fun py_str :: "pyval \<Rightarrow> string" where
  "py_str (PStr s) = s"
| "py_str v = py_repr v"

section \<open>Identity extraction\<close>

text \<open>
  The pattern of line 92,
  \<^verbatim>\<open>["']Identity["']\s*:\s*["']([^"']+)["']\<close>,
  matched at the head of a string. No part of it can match in two ways: the blanks
  before and after the colon are followed by a character that is not a blank, and the
  captured run of characters other than quotes is followed by a quote. The result is the
  captured group.
\<close>

definition is_quote :: "char \<Rightarrow> bool" where
  "is_quote c = (c = dq \<or> c = sq)"

definition match_identity :: "string \<Rightarrow> string option" where
  "match_identity s =
     (case s of
        [] \<Rightarrow> None
      | q1 # r1 \<Rightarrow>
          if \<not> is_quote q1 \<or> take 8 r1 \<noteq> ''Identity'' then None
          else (case drop 8 r1 of
              [] \<Rightarrow> None
            | q2 # r2 \<Rightarrow>
                if \<not> is_quote q2 then None
                else (case dropWhile is_space r2 of
                    [] \<Rightarrow> None
                  | c # r3 \<Rightarrow>
                      if c \<noteq> CHR '':'' then None
                      else (case dropWhile is_space r3 of
                          [] \<Rightarrow> None
                        | q3 # r4 \<Rightarrow>
                            if \<not> is_quote q3 then None
                            else (let v = takeWhile (\<lambda>c. \<not> is_quote c) r4;
                                      rest = dropWhile (\<lambda>c. \<not> is_quote c) r4
                                  in if v = [] \<or> rest = [] then None else Some v)))))"

text \<open>\<^verbatim>\<open>re.search\<close>: the match at the leftmost position where the pattern matches.\<close>

fun search_identity :: "string \<Rightarrow> string option" where
  "search_identity [] = None"
| "search_identity (c # cs) =
     (case match_identity (c # cs) of
        Some v \<Rightarrow> Some v
      | None \<Rightarrow> search_identity cs)"

text \<open>
  \<^verbatim>\<open>safe_json(obj)\<close>, lines 76-85. \<open>loads\<close> stands for \<^verbatim>\<open>json.loads\<close>, which is
  library code: \<open>None\<close> where it raises. Whatever \<^verbatim>\<open>json.loads\<close> returns is
  returned as it is, a mapping or not.
\<close>

definition safe_json :: "(string \<Rightarrow> pyval option) \<Rightarrow> pyval \<Rightarrow> pyval" where
  "safe_json loads obj =
     (case obj of
        PDict d \<Rightarrow> PDict d
      | PStr s0 \<Rightarrow>
          (let s = strip s0
           in case loads s of
                Some v \<Rightarrow> v
              | None \<Rightarrow>
                  (case loads (replace_quotes s) of
                     Some v \<Rightarrow> v
                   | None \<Rightarrow> PDict []))
      | _ \<Rightarrow> PDict [])"

text \<open>
  \<^verbatim>\<open>extract_identity(contact_field)\<close>, lines 87-93. \<^verbatim>\<open>d.get(k)\<close> exists on a
  mapping only: on any other value of \<open>d\<close> the attribute lookup raises AttributeError,
  which nothing in the function catches.
\<close>

definition is_str :: "pyval option \<Rightarrow> bool" where
  "is_str v = (case v of Some (PStr _) \<Rightarrow> True | _ \<Rightarrow> False)"

definition str_val :: "pyval option \<Rightarrow> string" where
  "str_val v = (case v of Some (PStr s) \<Rightarrow> s | _ \<Rightarrow> [])"

definition extract_identity ::
  "(string \<Rightarrow> pyval option) \<Rightarrow> pyval \<Rightarrow> py_error + string option" where
  "extract_identity loads contact_field =
     (case safe_json loads contact_field of
        PDict d \<Rightarrow>
          if is_str (map_of d ''identity'') then Inr (Some (str_val (map_of d ''identity'')))
          else if is_str (map_of d ''Identity'') then Inr (Some (str_val (map_of d ''Identity'')))
          else Inr (search_identity (py_str contact_field))
      | _ \<Rightarrow> Inl AttributeError)"

text \<open>
  A parser that knows the documents of a finite table and rejects every other text:
  the stand-in for \<^verbatim>\<open>json.loads\<close> where a theorem is run on concrete inputs.
\<close>

definition loads_table :: "(string \<times> pyval) list \<Rightarrow> string \<Rightarrow> pyval option" where
  "loads_table docs s = map_of docs s"

text \<open>
  The two documents of the second example: the contact text with single quotes, as the
  upstream sometimes sends it, and the same text with double quotes.
\<close>

definition single_quoted_doc :: string where
  "single_quoted_doc = ''{'' @ [sq] @ ''Identity'' @ [sq] @ '': '' @ [sq] @ ''user-7'' @ [sq] @ ''}''"

definition double_quoted_doc :: string where
  "double_quoted_doc = ''{'' @ [dq] @ ''Identity'' @ [dq] @ '': '' @ [dq] @ ''user-7'' @ [dq] @ ''}''"

section \<open>Event fetcher\<close>

text \<open>
  What one \<^verbatim>\<open>requests.post\<close> gives: an exception (time-out, connection failure), or a
  response with its status code and its body, the value of \<^verbatim>\<open>resp.json()\<close> or
  \<open>None\<close> where that call raises.
\<close>

datatype response = ConnectionError | Response int "pyval option"

text \<open>The statuses of line 126, and the statuses on which \<^verbatim>\<open>raise_for_status()\<close> raises.\<close>

definition transient :: "int \<Rightarrow> bool" where
  "transient status = (status \<in> {429, 500, 502, 503, 504})"

definition raises_for_status :: "int \<Rightarrow> bool" where
  "raises_for_status status = (400 \<le> status \<and> status < 600)"

text \<open>
  The \<^verbatim>\<open>try\<close> block of lines 122-141: the request is retried (\<^verbatim>\<open>continue\<close>), or
  an exception is caught and the loop is left (\<^verbatim>\<open>break\<close>), or the body is read.
  With the retries spent, line 135 calls \<^verbatim>\<open>raise_for_status()\<close>, as line 136 does.
\<close>

datatype outcome = Retry | Stop | Page pyval

definition attempt_request :: "int \<Rightarrow> nat \<Rightarrow> response \<Rightarrow> outcome" where
  "attempt_request max_retries attempt resp =
     (case resp of
        ConnectionError \<Rightarrow> Stop
      | Response status body \<Rightarrow>
          if status = 401 then Stop
          else if transient status \<and> int attempt < max_retries then Retry
          else if raises_for_status status then Stop
          else (case body of None \<Rightarrow> Stop | Some data \<Rightarrow> Page data))"

text \<open>Python truth value, as tested by \<^verbatim>\<open>or\<close> and \<^verbatim>\<open>not\<close>.\<close>

fun truthy :: "pyval \<Rightarrow> bool" where
  "truthy PNone = False"
| "truthy (PBool b) = b"
| "truthy (PInt i) = (i \<noteq> 0)"
| "truthy (PStr s) = (s \<noteq> [])"
| "truthy (PList xs) = (xs \<noteq> [])"
| "truthy (PDict d) = (d \<noteq> [])"

text \<open>\<^verbatim>\<open>x.get(k, default)\<close>: only a mapping has the method.\<close>

fun dict_get :: "pyval \<Rightarrow> string \<Rightarrow> pyval \<Rightarrow> py_error + pyval" where
  "dict_get (PDict d) k dflt = Inr (case map_of d k of None \<Rightarrow> dflt | Some v \<Rightarrow> v)"
| "dict_get _ k dflt = Inl AttributeError"

text \<open>
  Line 143, \<^verbatim>\<open>(data or {}).get("resource", {}).get("items", []) or []\<close>, which stands
  after the \<^verbatim>\<open>try\<close> block: its exceptions reach the caller.
\<close>

definition page_items :: "pyval \<Rightarrow> py_error + pyval" where
  "page_items data =
     (case dict_get (if truthy data then data else PDict []) ''resource'' (PDict []) of
        Inl e \<Rightarrow> Inl e
      | Inr resource \<Rightarrow>
          (case dict_get resource ''items'' (PList []) of
             Inl e \<Rightarrow> Inl e
           | Inr items \<Rightarrow> Inr (if truthy items then items else PList [])))"

text \<open>
  The elements \<^verbatim>\<open>collected.extend(items)\<close> appends: those of a list, the characters of
  a string, the keys of a mapping; any other value is not iterable.
\<close>

fun iterate :: "pyval \<Rightarrow> py_error + pyval list" where
  "iterate (PList xs) = Inr xs"
| "iterate (PStr s) = Inr (map (\<lambda>c. PStr [c]) s)"
| "iterate (PDict d) = Inr (map (\<lambda>kv. PStr (fst kv)) d)"
| "iterate _ = Inl TypeError"

text \<open>
  The variables of the loop, with two observations that the source does not store: the
  number of requests issued and the delays passed to \<^verbatim>\<open>time.sleep\<close>, in order.
  Delays are exact numbers.
\<close>

record fetch_state =
  collected :: "pyval list"
  skip :: int
  attempt :: nat
  requests :: nat
  sleeps :: "real list"

text \<open>
  The loop of lines 117-149. The server is a function of the number of requests issued
  before and of the offset \<^verbatim>\<open>$skip\<close> of the request; the other parts of the request
  are the same in every iteration. \<^verbatim>\<open>time.sleep\<close> raises on a negative delay, inside
  the \<^verbatim>\<open>try\<close> block. The progress notices are not modelled.
\<close>

function fetch_loop ::
  "(nat \<Rightarrow> int \<Rightarrow> response) \<Rightarrow> int \<Rightarrow> int \<Rightarrow> int \<Rightarrow> real \<Rightarrow> fetch_state \<Rightarrow> py_error + fetch_state" where
  "fetch_loop server take_n max_events max_retries base_sleep st =
     (case attempt_request max_retries (attempt st) (server (requests st) (skip st)) of
        Retry \<Rightarrow>
          if base_sleep * 2 ^ attempt st < 0
          then Inr (st\<lparr>requests := Suc (requests st)\<rparr>)
          else fetch_loop server take_n max_events max_retries base_sleep
                 (st\<lparr>requests := Suc (requests st),
                     sleeps := sleeps st @ [base_sleep * 2 ^ attempt st],
                     attempt := Suc (attempt st)\<rparr>)
      | Stop \<Rightarrow> Inr (st\<lparr>requests := Suc (requests st)\<rparr>)
      | Page data \<Rightarrow>
          (case page_items data of
             Inl e \<Rightarrow> Inl e
           | Inr items \<Rightarrow>
               (case iterate items of
                  Inl e \<Rightarrow> Inl e
                | Inr new \<Rightarrow>
                    if \<not> truthy items \<or> int (length (collected st @ new)) \<ge> max_events
                    then Inr (st\<lparr>requests := Suc (requests st), collected := collected st @ new\<rparr>)
                    else fetch_loop server take_n max_events max_retries base_sleep
                           (st\<lparr>requests := Suc (requests st),
                               collected := collected st @ new,
                               skip := skip st + take_n\<rparr>))))"
  by pat_completeness auto
termination
proof (relation "measure (\<lambda>(server, take_n, max_events, max_retries, base_sleep, st).
          nat (max_retries - int (attempt st)) + nat (max_events - int (length (collected st))))",
       goal_cases)
  case 1
  show ?case by simp
next
  case (2 server take_n max_events max_retries base_sleep st)
  then have "int (attempt st) < max_retries"
    by (auto simp: attempt_request_def split: response.splits if_splits option.splits)
  then show ?case by simp
next
  case (3 server take_n max_events max_retries base_sleep st data items new)
  from 3(3,4) have "new \<noteq> []"
    by (cases items) auto
  with 3(4) show ?case by (cases new) auto
qed

text \<open>\<^verbatim>\<open>fetch_events\<close>: the run from the initial variables, and the list it returns.\<close>

definition fetch_run ::
  "(nat \<Rightarrow> int \<Rightarrow> response) \<Rightarrow> int \<Rightarrow> int \<Rightarrow> int \<Rightarrow> real \<Rightarrow> py_error + fetch_state" where
  "fetch_run server take_n max_events max_retries base_sleep =
     fetch_loop server take_n max_events max_retries base_sleep
       \<lparr>collected = [], skip = 0, attempt = 0, requests = 0, sleeps = []\<rparr>"

definition fetch_events ::
  "(nat \<Rightarrow> int \<Rightarrow> response) \<Rightarrow> int \<Rightarrow> int \<Rightarrow> int \<Rightarrow> real \<Rightarrow> py_error + pyval list" where
  "fetch_events server take_n max_events max_retries base_sleep =
     map_sum id collected (fetch_run server take_n max_events max_retries base_sleep)"




definition flaky_server :: "nat \<Rightarrow> int \<Rightarrow> response" where
  "flaky_server n offset =
     (if n < 2 then Response 503 None
      else if n = 2 then Response 200 (Some (PDict [(''resource'', PDict [(''items'', PList [PInt 7])])]))
      else Response 200 (Some (PDict [(''resource'', PDict [(''items'', PList [])])])))"


definition null_resource_server :: "nat \<Rightarrow> int \<Rightarrow> response" where
  "null_resource_server n offset = Response 200 (Some (PDict [(''resource'', PNone)]))"

section \<open>Dedup and aggregation pipeline\<close>

text \<open>
  A raw event is a mapping from string keys to values. The table \<^verbatim>\<open>pd.DataFrame(raw)\<close>
  has one row per event and one column per key that occurs in some event; a row
  without the key holds a missing value there, which the model writes \<open>PNone\<close> (pandas
  treats \<^verbatim>\<open>None\<close> and NaN alike in \<^verbatim>\<open>isna\<close>, \<^verbatim>\<open>dropna\<close> and
  \<^verbatim>\<open>to_datetime\<close>).
\<close>

type_synonym event = "(string \<times> pyval) list"

text \<open>
  A timestamp in the configured zone: the instant (nanoseconds since the epoch, which
  is what orders two zone-aware timestamps) and the calendar fields that the source
  reads through \<^verbatim>\<open>.dt\<close>.
\<close>

datatype weekday = Monday | Tuesday | Wednesday | Thursday | Friday | Saturday | Sunday

record local_ts =
  instant :: int
  hour_of_day :: int
  iso_year :: int
  iso_week :: int
  day_name :: weekday

text \<open>
  A normalized event: the raw columns, and the columns that lines 167-182 add.
  \<open>user_id\<close> is a value because line 179 may copy the raw column \<^verbatim>\<open>from\<close> into it;
  \<open>PNone\<close> is the null identifier.
\<close>

record row =
  raw_event :: event
  datetime_utc :: int
  datetime_local :: local_ts
  hora :: int
  user_id :: pyval
  horario_comercial :: string

text \<open>
  The library calls whose code is not in the repository, as parameters of the model:
  \<^item> \<open>json_loads\<close>: \<^verbatim>\<open>json.loads\<close>, \<open>None\<close> where it raises;
  \<^item> \<open>to_datetime\<close>: \<^verbatim>\<open>pd.to_datetime(..., errors="coerce", utc=True)\<close> on one cell that
    is not missing, \<open>None\<close> for NaT;
  \<^item> \<open>zone_info\<close>: \<^verbatim>\<open>ZoneInfo(tz_name)\<close> with the conversion \<^verbatim>\<open>tz_convert\<close> into that
    zone, \<open>None\<close> where the zone is unknown and \<^verbatim>\<open>ZoneInfo\<close> raises;
  \<^item> \<open>sort_values\<close>: \<^verbatim>\<open>df.sort_values("datetime_local")\<close>. The source passes no
    \<^verbatim>\<open>kind\<close>, and the default \<^verbatim>\<open>kind="quicksort"\<close> is documented by pandas as not
    stable (only \<^verbatim>\<open>mergesort\<close> and \<^verbatim>\<open>stable\<close> are): the call promises a sorted
    permutation of the rows and no order among rows with equal timestamps.
\<close>

record lib =
  json_loads :: "string \<Rightarrow> pyval option"
  to_datetime :: "pyval \<Rightarrow> int option"
  zone_info :: "string \<Rightarrow> (int \<Rightarrow> local_ts) option"
  sort_values :: "row list \<Rightarrow> row list"

text \<open>
  \<^verbatim>\<open>df[k]\<close> at one row, \<^verbatim>\<open>k in df.columns\<close>, and \<^verbatim>\<open>df.empty\<close> (no row, or no column).
\<close>

definition cell :: "event \<Rightarrow> string \<Rightarrow> pyval" where
  "cell e k = (case map_of e k of None \<Rightarrow> PNone | Some v \<Rightarrow> v)"

definition has_column :: "event list \<Rightarrow> string \<Rightarrow> bool" where
  "has_column raw k = list_ex (\<lambda>e. map_of e k \<noteq> None) raw"

definition df_empty :: "event list \<Rightarrow> bool" where
  "df_empty raw = list_all (\<lambda>e. e = []) raw"

text \<open>
  Lines 167-170. A missing cell parses to NaT. The fallback to \<^verbatim>\<open>eventDate\<close> is taken
  for the whole column, when every \<^verbatim>\<open>storageDate\<close> is NaT and the column
  \<^verbatim>\<open>eventDate\<close> exists; \<^verbatim>\<open>dropna\<close> then removes the rows without a timestamp.
\<close>

definition parse_cell :: "lib \<Rightarrow> string \<Rightarrow> event \<Rightarrow> int option" where
  "parse_cell L k e = (case cell e k of PNone \<Rightarrow> None | v \<Rightarrow> to_datetime L v)"

definition parse_column :: "lib \<Rightarrow> event list \<Rightarrow> string \<Rightarrow> int option list" where
  "parse_column L raw k = map (parse_cell L k) raw"

definition isna_all :: "'a option list \<Rightarrow> bool" where
  "isna_all xs = list_all (\<lambda>x. x = None) xs"

fun dropna_datetime :: "(event \<times> int option) list \<Rightarrow> (event \<times> int) list" where
  "dropna_datetime [] = []"
| "dropna_datetime ((e, None) # xs) = dropna_datetime xs"
| "dropna_datetime ((e, Some t) # xs) = (e, t) # dropna_datetime xs"

text \<open>
  \<^verbatim>\<open>df.get("contact").apply(extract_identity)\<close>: the first exception of
  \<^verbatim>\<open>extract_identity\<close> ends the whole call.
\<close>

fun apply_extract_identity ::
  "(string \<Rightarrow> pyval option) \<Rightarrow> pyval list \<Rightarrow> py_error + string option list" where
  "apply_extract_identity loads [] = Inr []"
| "apply_extract_identity loads (c # cs) =
     (case extract_identity loads c of
        Inl err \<Rightarrow> Inl err
      | Inr i \<Rightarrow>
          (case apply_extract_identity loads cs of
             Inl err \<Rightarrow> Inl err
           | Inr is \<Rightarrow> Inr (i # is)))"

text \<open>
  Lines 185-190: \<^verbatim>\<open>dropna(subset=["user_id"])\<close>, then
  \<^verbatim>\<open>drop_duplicates(subset=["user_id"], keep="first")\<close>, which keeps a row when no
  earlier row of the table has its \<open>user_id\<close>; \<^verbatim>\<open>reset_index\<close> renumbers the rows,
  which a list does by itself. Identifiers are compared as values.
\<close>

definition dropna_user_id :: "row list \<Rightarrow> row list" where
  "dropna_user_id df = filter (\<lambda>r. user_id r \<noteq> PNone) df"

fun drop_duplicates :: "row list \<Rightarrow> row list" where
  "drop_duplicates [] = []"
| "drop_duplicates (r # rs) = r # drop_duplicates (filter (\<lambda>x. user_id x \<noteq> user_id r) rs)"

definition first_contact :: "(row list \<Rightarrow> row list) \<Rightarrow> row list \<Rightarrow> row list" where
  "first_contact srt df = drop_duplicates (dropna_user_id (srt df))"

text \<open>
  Lines 167-169, the column \<^verbatim>\<open>datetime_utc\<close> before \<^verbatim>\<open>dropna\<close>.
\<close>

definition datetime_utc_column :: "lib \<Rightarrow> event list \<Rightarrow> int option list" where
  "datetime_utc_column L raw =
     (if isna_all (parse_column L raw ''storageDate'') \<and> has_column raw ''eventDate''
      then parse_column L raw ''eventDate''
      else parse_column L raw ''storageDate'')"

text \<open>
  Lines 177-179: the identities extracted from \<^verbatim>\<open>contact\<close> (all null without that
  column), replaced by the column \<^verbatim>\<open>from\<close> when all of them are null and that column
  exists.
\<close>

definition user_id_column :: "lib \<Rightarrow> event list \<Rightarrow> (event \<times> int) list \<Rightarrow> py_error + pyval list" where
  "user_id_column L raw kept =
     (case (if has_column raw ''contact''
            then apply_extract_identity (json_loads L) (map (\<lambda>et. cell (fst et) ''contact'') kept)
            else Inr (map (\<lambda>et. None) kept)) of
        Inl err \<Rightarrow> Inl err
      | Inr ids \<Rightarrow>
          Inr (if isna_all ids \<and> has_column raw ''from''
               then map (\<lambda>et. cell (fst et) ''from'') kept
               else map (\<lambda>i. case i of None \<Rightarrow> PNone | Some s \<Rightarrow> PStr s) ids))"

text \<open>
  Lines 173-174 and 182 for one row. \<^verbatim>\<open>hora\<close> is an integer, on which \<^verbatim>\<open>int()\<close> is
  the identity.
\<close>

definition normalized ::
  "(int \<Rightarrow> local_ts) \<Rightarrow> int \<Rightarrow> int \<Rightarrow> (event \<times> int) \<times> pyval \<Rightarrow> row" where
  "normalized tz start_h end_h etu =
     \<lparr>raw_event = fst (fst etu),
      datetime_utc = snd (fst etu),
      datetime_local = tz (snd (fst etu)),
      hora = hour_of_day (tz (snd (fst etu))),
      user_id = snd etu,
      horario_comercial = business_bucket Some (hour_of_day (tz (snd (fst etu)))) start_h end_h\<rparr>"

text \<open>
  \<^verbatim>\<open>preprocess_and_unique(raw, tz_name, start_h, end_h)\<close>, lines 155-191. On an empty
  frame the source returns the frame itself twice; it has no normalized row, and the
  model returns the empty table. The columns are followed value by value: what pandas
  makes of the type of a column that holds no timestamp at all is not modelled.
\<close>

definition preprocess_and_unique ::
  "lib \<Rightarrow> event list \<Rightarrow> string \<Rightarrow> int \<Rightarrow> int \<Rightarrow> py_error + row list \<times> row list" where
  "preprocess_and_unique L raw tz_name start_h end_h =
     (if df_empty raw then Inr ([], [])
      else case zone_info L tz_name of
        None \<Rightarrow> Inl ZoneInfoNotFoundError
      | Some tz \<Rightarrow>
          let kept = dropna_datetime (zip raw (datetime_utc_column L raw))
          in case user_id_column L raw kept of
               Inl err \<Rightarrow> Inl err
             | Inr uids \<Rightarrow>
                 let df = map (normalized tz start_h end_h) (zip kept uids)
                 in Inr (df, first_contact (sort_values L) df))"

text \<open>
  The summary tables. A row of \<^verbatim>\<open>resumo\<close> has the three columns of line 195; the
  other tables map an index label to the counts per bucket.
\<close>

record resumo_row =
  horario :: string
  usuarios_unicos :: nat
  percentual :: real

record summary =
  total :: nat
  resumo :: "resumo_row list"
  semana :: "(string \<times> (string \<times> nat) list) list"
  dia :: "(string \<times> (string \<times> nat) list) list"
  hora_tbl :: "(int \<times> (string \<times> nat) list) list"

text \<open>
  \<^verbatim>\<open>df["horario_comercial"].value_counts()\<close> at one bucket.
\<close>

definition value_counts :: "row list \<Rightarrow> string \<Rightarrow> nat" where
  "value_counts df b = length (filter (\<lambda>r. horario_comercial r = b) df)"

text \<open>
  \<^verbatim>\<open>.round(2)\<close>: \<open>x * 100\<close> rounded to the nearest integer, halves to the even one,
  divided by 100. Percentages are exact numbers in the model, not binary floating-point
  numbers.
\<close>

definition rint :: "real \<Rightarrow> int" where
  "rint x =
     (let f = \<lfloor>x\<rfloor>; d = x - of_int f
      in if d < 1 / 2 then f
         else if 1 / 2 < d then f + 1
         else if even f then f else f + 1)"

definition round2 :: "real \<Rightarrow> real" where
  "round2 x = of_int (rint (x * 100)) / 100"

text \<open>
  \<^verbatim>\<open>groupby([key, "horario_comercial"]).size().unstack(fill_value=0)\<close> over a given
  index: one column per bucket that occurs in the table, in sorted order, and the
  number of rows per index label and bucket.
\<close>

definition pivot ::
  "(row \<Rightarrow> 'k) \<Rightarrow> 'k list \<Rightarrow> row list \<Rightarrow> ('k \<times> (string \<times> nat) list) list" where
  "pivot key index df =
     (let buckets = sort (remdups (map horario_comercial df))
      in map (\<lambda>k. (k, map (\<lambda>b. (b, length (filter (\<lambda>r. key r = k \<and> horario_comercial r = b) df)))
                        buckets))
           index)"

text \<open>
  The label \<^verbatim>\<open>f"{y}-W{int(w):02d}"\<close> of line 219.
\<close>

definition week_label :: "int \<times> int \<Rightarrow> string" where
  "week_label yw =
     str_int (fst yw) @ ''-W''
       @ (if length (str_int (snd yw)) < 2 then ''0'' @ str_int (snd yw) else str_int (snd yw))"

text \<open>
  \<^verbatim>\<open>dias_map\<close> and \<^verbatim>\<open>dias_ord\<close>, lines 222-226; the names are UTF-8 byte strings.
\<close>

fun dias_map :: "weekday \<Rightarrow> string" where
  "dias_map Monday = ''Segunda-feira''"
| "dias_map Tuesday = ''Ter'' @ [CHR 0xC3, CHR 0xA7] @ ''a-feira''"
| "dias_map Wednesday = ''Quarta-feira''"
| "dias_map Thursday = ''Quinta-feira''"
| "dias_map Friday = ''Sexta-feira''"
| "dias_map Saturday = ''S'' @ [CHR 0xC3, CHR 0xA1] @ ''bado''"
| "dias_map Sunday = ''Domingo''"

definition dias_ord :: "string list" where
  "dias_ord = map dias_map [Monday, Tuesday, Wednesday, Thursday, Friday, Saturday, Sunday]"

text \<open>
  \<^verbatim>\<open>summarize(df_unicos)\<close>, lines 193-236, for a table built by
  \<^verbatim>\<open>preprocess_and_unique\<close> from events without a key \<^verbatim>\<open>dia_semana\<close> (line 228
  then computes the column).
\<close>

definition summarize :: "row list \<Rightarrow> summary" where
  "summarize df_unicos =
     (if df_unicos = []
      then \<lparr>total = 0, resumo = [], semana = [], dia = [], hora_tbl = []\<rparr>
      else
        let total = length df_unicos;
            ordem = [''Dentro'', ''Fora''];
            resumo = map (\<lambda>b. \<lparr>horario = b,
                                 usuarios_unicos = value_counts df_unicos b,
                                 percentual = round2 (real (value_counts df_unicos b) / real total * 100)\<rparr>)
                       ordem;
            iso = (\<lambda>r. (iso_year (datetime_local r), iso_week (datetime_local r)));
            semana = map (\<lambda>(yw, counts). (week_label yw, counts))
                       (pivot iso (sort (remdups (map iso df_unicos))) df_unicos);
            dia = pivot (\<lambda>r. dias_map (day_name (datetime_local r))) dias_ord df_unicos;
            por_hora = pivot hora (sort (remdups (map hora df_unicos))) df_unicos
        in \<lparr>total = total, resumo = resumo, semana = semana, dia = dia, hora_tbl = por_hora\<rparr>)"

text \<open>
  Stand-ins for the library in the examples: UTC, exact for the instants of the year
  1970 (1 January 1970 is a Thursday of ISO week 1); \<^verbatim>\<open>pd.to_datetime\<close> on integers,
  which are nanoseconds since the epoch, every other cell being NaT; a stable sort; and
  a sort that reverses the order of rows with equal timestamps.
\<close>

fun weekday_of :: "int \<Rightarrow> weekday" where
  "weekday_of n =
     (if n = 0 then Monday else if n = 1 then Tuesday else if n = 2 then Wednesday
      else if n = 3 then Thursday else if n = 4 then Friday else if n = 5 then Saturday
      else Sunday)"

definition utc_1970 :: "int \<Rightarrow> local_ts" where
  "utc_1970 t =
     (let d = t div 86400000000000
      in \<lparr>instant = t,
          hour_of_day = (t div 3600000000000) mod 24,
          iso_year = 1970,
          iso_week = (d + 3) div 7 + 1,
          day_name = weekday_of ((d + 3) mod 7)\<rparr>)"

fun epoch_ns :: "pyval \<Rightarrow> int option" where
  "epoch_ns (PInt n) = Some n"
| "epoch_ns _ = None"

definition by_instant :: "row \<Rightarrow> int" where
  "by_instant r = instant (datetime_local r)"

definition stable_lib :: lib where
  "stable_lib =
     \<lparr>json_loads = loads_table [],
      to_datetime = epoch_ns,
      zone_info = (\<lambda>name. if name = ''UTC'' then Some utc_1970 else None),
      sort_values = sort_key by_instant\<rparr>"



text \<open>
  Events of the examples: an identifier, a timestamp and a contact.
\<close>

definition hour_ns :: int where
  "hour_ns = 3600000000000"

definition event_at :: "string \<Rightarrow> int \<Rightarrow> string \<Rightarrow> event" where
  "event_at eid t u =
     [(''id'', PStr eid), (''storageDate'', PInt t), (''contact'', PDict [(''Identity'', PStr u)])]"

definition ev_a :: event where "ev_a = event_at ''a'' (10 * hour_ns) ''u1''"

definition ev_bad_storage :: event where
  "ev_bad_storage = [(''id'', PStr ''e''), (''storageDate'', PStr ''n/a''), (''eventDate'', PInt hour_ns)]"

definition ev_no_dates :: event where
  "ev_no_dates = [(''id'', PStr ''f''), (''storageDate'', PStr ''n/a'')]"




text \<open>
  The normalized row of an event in the zone \<open>utc_1970\<close>.
\<close>

definition utc_row :: "int \<Rightarrow> int \<Rightarrow> event \<Rightarrow> int \<Rightarrow> pyval \<Rightarrow> row" where
  "utc_row start_h end_h e t u = normalized utc_1970 start_h end_h ((e, t), u)"

section \<open>Theorems\<close>

text \<open>
  C1. For every hour value and every pair of business hours (the bounds 0..23 are not
  needed): when the hour converts to the integer \<open>h\<close>, a normal window
  (\<open>start_h \<le> end_h\<close>) classifies it as Dentro (inside) iff \<open>start_h \<le> h < end_h\<close>,
  a wrapping window (\<open>start_h > end_h\<close>) iff \<open>h \<ge> start_h\<close> or \<open>h < end_h\<close>, and
  the only other answer is Fora (outside); an hour that does not convert to an integer
  is classified Fora, and the function returns a value in every case.
\<close>

theorem business_bucket_classifies:
  "(to_int hour = Some h \<and> start_h \<le> end_h \<longrightarrow>
      (business_bucket to_int hour start_h end_h = ''Dentro'') = (start_h \<le> h \<and> h < end_h))
   \<and> (to_int hour = Some h \<and> start_h > end_h \<longrightarrow>
      (business_bucket to_int hour start_h end_h = ''Dentro'') = (h \<ge> start_h \<or> h < end_h))
   \<and> (to_int hour = None \<longrightarrow> business_bucket to_int hour start_h end_h = ''Fora'')
   \<and> business_bucket to_int hour start_h end_h \<in> {''Dentro'', ''Fora''}"
  by (auto simp: business_bucket_def split: option.splits)

theorem business_bucket_classifies_witness:
  "business_bucket int_of_number (PInt 10) 9 18 = ''Dentro''
   \<and> business_bucket int_of_number (PInt 20) 9 18 = ''Fora''
   \<and> business_bucket int_of_number (PInt 23) 22 6 = ''Dentro''
   \<and> business_bucket int_of_number (PInt 10) 22 6 = ''Fora''
   \<and> business_bucket int_of_number (PInt 5) 22 6 = ''Dentro''
   \<and> business_bucket int_of_number PNone 9 18 = ''Fora''"
  using business_bucket_classifies [of int_of_number "PInt 10" 10 9 18]
        business_bucket_classifies [of int_of_number "PInt 20" 20 9 18]
        business_bucket_classifies [of int_of_number "PInt 23" 23 22 6]
        business_bucket_classifies [of int_of_number "PInt 10" 10 22 6]
        business_bucket_classifies [of int_of_number "PInt 5" 5 22 6]
        business_bucket_classifies [of int_of_number PNone 0 9 18]
  by auto

subsection \<open>Identity extraction\<close>

lemma safe_json_cases:
  "safe_json loads (PDict d) = PDict d"
  "loads (strip s) = Some j \<Longrightarrow> safe_json loads (PStr s) = j"
  "loads (strip s) = None \<Longrightarrow> loads (replace_quotes (strip s)) = Some j \<Longrightarrow> safe_json loads (PStr s) = j"
  "loads (strip s) = None \<Longrightarrow> loads (replace_quotes (strip s)) = None \<Longrightarrow> safe_json loads (PStr s) = PDict []"
  "safe_json loads PNone = PDict []"
  "safe_json loads (PBool b) = PDict []"
  "safe_json loads (PInt i) = PDict []"
  "safe_json loads (PList xs) = PDict []"
  by (simp_all add: safe_json_def)

lemma search_single_quoted_doc: "search_identity single_quoted_doc = Some ''user-7''"
  by code_simp
lemma strip_single_quoted_doc: "strip single_quoted_doc = single_quoted_doc"
  by code_simp
lemma replace_single_quoted_doc: "replace_quotes single_quoted_doc = double_quoted_doc"
  by code_simp
lemma search_garbage: "search_identity ''garbage'' = None"
  by code_simp
lemma strip_garbage: "strip ''garbage'' = ''garbage''" "replace_quotes ''garbage'' = ''garbage''"
  by code_simp+

text \<open>
  C6, as amended. \<^verbatim>\<open>safe_json\<close> yields a mapping for a native mapping, for a string
  whose strict parse is a mapping, for a string whose strict parse fails and whose parse
  after the quote substitution is a mapping, and the empty mapping for a string that both
  parses reject and for every value that is neither a mapping nor a string. In all these
  cases \<^verbatim>\<open>extract_identity\<close> does not raise and returns the string under the key
  \<^verbatim>\<open>identity\<close>, else the string under the key \<^verbatim>\<open>Identity\<close> (these two spellings
  and no other), else the group captured by the first match of the pattern in
  \<^verbatim>\<open>str(contact_field)\<close>, else null. The three examples of the specification hold,
  for every parser that rejects the single-quoted text and the word \<^verbatim>\<open>garbage\<close>.
\<close>

theorem extract_identity_amended:
  "(safe_json loads c = PDict d \<and> map_of d ''identity'' = Some (PStr v)
      \<longrightarrow> extract_identity loads c = Inr (Some v))
   \<and> (safe_json loads c = PDict d \<and> \<not> is_str (map_of d ''identity'')
        \<and> map_of d ''Identity'' = Some (PStr v)
      \<longrightarrow> extract_identity loads c = Inr (Some v))
   \<and> (safe_json loads c = PDict d \<and> \<not> is_str (map_of d ''identity'')
        \<and> \<not> is_str (map_of d ''Identity'')
      \<longrightarrow> extract_identity loads c = Inr (search_identity (py_str c)))
   \<and> ((\<forall>s. c = PStr s \<longrightarrow>
          (case loads (strip s) of
             Some j \<Rightarrow> \<exists>m. j = PDict m
           | None \<Rightarrow> (case loads (replace_quotes (strip s)) of
                        Some j \<Rightarrow> \<exists>m. j = PDict m
                      | None \<Rightarrow> True)))
      \<longrightarrow> (\<exists>r. extract_identity loads c = Inr r))
   \<and> extract_identity loads (PDict [(''identity'', PStr ''user-42'')]) = Inr (Some ''user-42'')
   \<and> (loads single_quoted_doc = None
        \<and> loads double_quoted_doc = Some (PDict [(''Identity'', PStr ''user-7'')])
      \<longrightarrow> extract_identity loads (PStr single_quoted_doc) = Inr (Some ''user-7''))
   \<and> (loads ''garbage'' = None \<longrightarrow> extract_identity loads (PStr ''garbage'') = Inr None)"
proof (intro conjI impI)
  assume "safe_json loads c = PDict d \<and> map_of d ''identity'' = Some (PStr v)"
  then show "extract_identity loads c = Inr (Some v)"
    by (simp add: extract_identity_def is_str_def str_val_def)
next
  assume "safe_json loads c = PDict d \<and> \<not> is_str (map_of d ''identity'')
        \<and> map_of d ''Identity'' = Some (PStr v)"
  then show "extract_identity loads c = Inr (Some v)"
    by (simp add: extract_identity_def is_str_def str_val_def)
next
  assume "safe_json loads c = PDict d \<and> \<not> is_str (map_of d ''identity'')
        \<and> \<not> is_str (map_of d ''Identity'')"
  then show "extract_identity loads c = Inr (search_identity (py_str c))"
    by (simp add: extract_identity_def)
next
  assume a: "\<forall>s. c = PStr s \<longrightarrow>
          (case loads (strip s) of
             Some j \<Rightarrow> \<exists>m. j = PDict m
           | None \<Rightarrow> (case loads (replace_quotes (strip s)) of
                        Some j \<Rightarrow> \<exists>m. j = PDict m
                      | None \<Rightarrow> True))"
  have "\<exists>m. safe_json loads c = PDict m"
  proof (cases c)
    case (PStr s)
    with a show ?thesis
      by (auto simp: safe_json_def split: option.splits)
  qed (simp_all add: safe_json_def)
  then show "\<exists>r. extract_identity loads c = Inr r"
    by (auto simp: extract_identity_def)
next
  show "extract_identity loads (PDict [(''identity'', PStr ''user-42'')]) = Inr (Some ''user-42'')"
    by (simp add: extract_identity_def safe_json_def is_str_def str_val_def)
next
  assume "loads single_quoted_doc = None
        \<and> loads double_quoted_doc = Some (PDict [(''Identity'', PStr ''user-7'')])"
  then show "extract_identity loads (PStr single_quoted_doc) = Inr (Some ''user-7'')"
    by (simp add: extract_identity_def safe_json_def strip_single_quoted_doc replace_single_quoted_doc is_str_def str_val_def del: search_identity.simps)
next
  assume "loads ''garbage'' = None"
  then show "extract_identity loads (PStr ''garbage'') = Inr None"
    by (simp add: extract_identity_def safe_json_def strip_garbage search_garbage is_str_def del: search_identity.simps)
qed

theorem extract_identity_amended_witness:
  "extract_identity (loads_table [(double_quoted_doc, PDict [(''Identity'', PStr ''user-7'')])])
      (PStr single_quoted_doc) = Inr (Some ''user-7'')
   \<and> extract_identity (loads_table []) (PStr ''garbage'') = Inr None
   \<and> extract_identity (loads_table []) (PDict [(''identity'', PInt 5), (''Identity'', PStr ''b'')])
        = Inr (Some ''b'')
   \<and> extract_identity (loads_table []) (PDict [(''identity'', PStr ''a''), (''Identity'', PStr ''b'')])
        = Inr (Some ''a'')
   \<and> extract_identity (loads_table []) (PDict [(''contact'', PDict [(''Identity'', PStr ''n'')])])
        = Inr (Some ''n'')
   \<and> (\<exists>r. extract_identity (loads_table []) (PList []) = Inr r)"
proof -
  let ?L = "loads_table [(double_quoted_doc, PDict [(''Identity'', PStr ''user-7'')])]"
  let ?N = "loads_table []"
  let ?d3 = "[(''identity'', PInt 5), (''Identity'', PStr ''b'')]"
  let ?d4 = "[(''identity'', PStr ''a''), (''Identity'', PStr ''b'')]"
  let ?d5 = "[(''contact'', PDict [(''Identity'', PStr ''n'')])]"
  note c1 = extract_identity_amended [THEN conjunct1, rule_format]
  note c2 = extract_identity_amended [THEN conjunct2, THEN conjunct1, rule_format]
  note c3 = extract_identity_amended [THEN conjunct2, THEN conjunct2, THEN conjunct1, rule_format]
  note c4 = extract_identity_amended [where loads = ?N and c = "PList []",
              THEN conjunct2, THEN conjunct2, THEN conjunct2, THEN conjunct1]
  note c6 = extract_identity_amended [THEN conjunct2, THEN conjunct2, THEN conjunct2,
              THEN conjunct2, THEN conjunct2, THEN conjunct1, rule_format]
  note c7 = extract_identity_amended [THEN conjunct2, THEN conjunct2, THEN conjunct2,
              THEN conjunct2, THEN conjunct2, THEN conjunct2, rule_format]
  have h1: "?L single_quoted_doc = None
          \<and> ?L double_quoted_doc = Some (PDict [(''Identity'', PStr ''user-7'')])"
    by code_simp
  have r1: "extract_identity ?L (PStr single_quoted_doc) = Inr (Some ''user-7'')"
    by (rule c6 [where loads = ?L, OF h1])
  have h2: "?N ''garbage'' = None"
    by (simp add: loads_table_def)
  have r2: "extract_identity ?N (PStr ''garbage'') = Inr None"
    by (rule c7 [where loads = ?N, OF h2])
  have h3: "safe_json ?N (PDict ?d3) = PDict ?d3
          \<and> \<not> is_str (map_of ?d3 ''identity'')
          \<and> map_of ?d3 ''Identity'' = Some (PStr ''b'')"
    by (simp add: safe_json_def is_str_def)
  have r3: "extract_identity ?N (PDict ?d3) = Inr (Some ''b'')"
    by (rule c2 [OF h3])
  have h4: "safe_json ?N (PDict ?d4) = PDict ?d4
          \<and> map_of ?d4 ''identity'' = Some (PStr ''a'')"
    by (simp add: safe_json_def)
  have r4: "extract_identity ?N (PDict ?d4) = Inr (Some ''a'')"
    by (rule c1 [OF h4])
  have h5: "safe_json ?N (PDict ?d5) = PDict ?d5
          \<and> \<not> is_str (map_of ?d5 ''identity'')
          \<and> \<not> is_str (map_of ?d5 ''Identity'')"
    by (simp add: safe_json_def is_str_def)
  have s5: "search_identity (py_str (PDict ?d5)) = Some ''n''"
    by code_simp
  have r5: "extract_identity ?N (PDict ?d5) = Inr (Some ''n'')"
    using c3 [OF h5] by (simp only: s5)
  have h6: "\<forall>s. PList [] = PStr s \<longrightarrow>
          (case ?N (strip s) of
             Some j \<Rightarrow> \<exists>m. j = PDict m
           | None \<Rightarrow> (case ?N (replace_quotes (strip s)) of
                        Some j \<Rightarrow> \<exists>m. j = PDict m
                      | None \<Rightarrow> True))"
    by simp
  have r6: "\<exists>r. extract_identity ?N (PList []) = Inr r"
    using c4 h6 by (rule mp)
  from r1 r2 r3 r4 r5 r6 show ?thesis
    by (intro conjI)
qed

text \<open>
  C6 as stated fails: a mapping whose only key is \<^verbatim>\<open>IDENTITY\<close> contains the key
  "identity" up to case, and the result is null. Its \<^verbatim>\<open>repr\<close> is
  \<^verbatim>\<open>{'IDENTITY': 'user-42'}\<close>, which the pattern (capital I, lower case rest) does
  not match.
\<close>

theorem extract_identity_uppercase_key_counterexample:
  "extract_identity (loads_table []) (PDict [(''IDENTITY'', PStr ''user-42'')]) = Inr None"
  by code_simp

text \<open>
  A string that is a JSON document but not an object (here the number 123) is returned
  by \<^verbatim>\<open>safe_json\<close> as the parser gave it, and \<^verbatim>\<open>d.get\<close> raises on it.
\<close>

lemma extract_identity_non_mapping_json_raises:
  "extract_identity (loads_table [(''123'', PInt 123)]) (PStr ''123'') = Inl AttributeError"
  by code_simp


subsection \<open>Event fetcher\<close>


lemma attempt_request_Retry:
  "attempt_request max_retries a resp = Retry \<Longrightarrow> int a < max_retries"
  by (auto simp: attempt_request_def split: response.splits if_splits option.splits)



lemma fetch_loop_Stop:
  "attempt_request max_retries (attempt st) (server (requests st) (skip st)) = Stop \<Longrightarrow>
   fetch_loop server take_n max_events max_retries base_sleep st
     = Inr (st\<lparr>requests := Suc (requests st)\<rparr>)"
  by (subst fetch_loop.simps) simp

lemma fetch_loop_Retry:
  "attempt_request max_retries (attempt st) (server (requests st) (skip st)) = Retry \<Longrightarrow>
   fetch_loop server take_n max_events max_retries base_sleep st
     = (if base_sleep * 2 ^ attempt st < 0
        then Inr (st\<lparr>requests := Suc (requests st)\<rparr>)
        else fetch_loop server take_n max_events max_retries base_sleep
               (st\<lparr>requests := Suc (requests st),
                   sleeps := sleeps st @ [base_sleep * 2 ^ attempt st],
                   attempt := Suc (attempt st)\<rparr>))"
  by (subst fetch_loop.simps) simp

lemma fetch_loop_Page:
  "attempt_request max_retries (attempt st) (server (requests st) (skip st)) = Page data \<Longrightarrow>
   fetch_loop server take_n max_events max_retries base_sleep st
     = (case page_items data of
             Inl e \<Rightarrow> Inl e
           | Inr items \<Rightarrow>
               (case iterate items of
                  Inl e \<Rightarrow> Inl e
                | Inr new \<Rightarrow>
                    if \<not> truthy items \<or> int (length (collected st @ new)) \<ge> max_events
                    then Inr (st\<lparr>requests := Suc (requests st), collected := collected st @ new\<rparr>)
                    else fetch_loop server take_n max_events max_retries base_sleep
                           (st\<lparr>requests := Suc (requests st),
                               collected := collected st @ new,
                               skip := skip st + take_n\<rparr>)))"
  by (subst fetch_loop.simps) simp



lemmas fetch_eval = fetch_events_def fetch_run_def fetch_loop_Stop fetch_loop_Retry fetch_loop_Page
  attempt_request_def transient_def raises_for_status_def page_items_def




lemma fetch_run_flaky:
  "fetch_run flaky_server 500 10000 5 (8/10)
     = Inr \<lparr>collected = [PInt 7], skip = 500, attempt = 2, requests = 4, sleeps = [8/10, 16/10]\<rparr>"
  by (simp add: fetch_eval flaky_server_def)

text \<open>
  C5. The claim holds for the failures inside the \<^verbatim>\<open>try\<close> block (see
  \<open>attempt_request_fatal\<close> and \<open>fetch_loop_Stop\<close>: the collected items are returned
  unchanged), and the code breaks it after the block: a response with status 200 whose
  body is \<^verbatim>\<open>{"resource": null}\<close> makes line 143 call \<^verbatim>\<open>.get\<close> on \<^verbatim>\<open>None\<close>, and
  the AttributeError reaches the caller of \<^verbatim>\<open>fetch_events\<close>.
\<close>

theorem fetch_events_malformed_body_raises:
  "fetch_events null_resource_server 500 10000 5 (8/10) = Inl AttributeError"
  by (simp add: fetch_eval null_resource_server_def)

lemma attempt_request_transient:
  "transient status \<Longrightarrow> int a < max_retries \<Longrightarrow>
   attempt_request max_retries a (Response status body) = Retry"
  by (auto simp: attempt_request_def transient_def)

lemma fetch_loop_sleeps:
  assumes "fetch_loop server take_n max_events max_retries base_sleep st = Inr st'"
    and "sleeps st = map (\<lambda>k. base_sleep * 2 ^ k) [0..<attempt st]"
  shows "sleeps st' = map (\<lambda>k. base_sleep * 2 ^ k) [0..<attempt st']
       \<and> int (attempt st') \<le> max (int (attempt st)) max_retries"
  using assms
proof (induction server take_n max_events max_retries base_sleep st rule: fetch_loop.induct)
  case (1 server take_n max_events max_retries base_sleep st)
  let ?resp = "server (requests st) (skip st)"
  show ?case
  proof (cases "attempt_request max_retries (attempt st) ?resp")
    case Retry
    then have lt: "int (attempt st) < max_retries" by (rule attempt_request_Retry)
    show ?thesis
    proof (cases "base_sleep * 2 ^ attempt st < 0")
      case True
      with Retry "1.prems"(1) have "st' = st\<lparr>requests := Suc (requests st)\<rparr>"
        by (simp add: fetch_loop_Retry)
      with "1.prems"(2) show ?thesis by simp
    next
      case False
      let ?st1 = "st\<lparr>requests := Suc (requests st),
                     sleeps := sleeps st @ [base_sleep * 2 ^ attempt st],
                     attempt := Suc (attempt st)\<rparr>"
      from Retry False "1.prems"(1)
      have r: "fetch_loop server take_n max_events max_retries base_sleep ?st1 = Inr st'"
        by (simp add: fetch_loop_Retry)
      have s: "sleeps ?st1 = map (\<lambda>k. base_sleep * 2 ^ k) [0..<attempt ?st1]"
        using "1.prems"(2) by simp
      from "1.IH"(1)[OF Retry False r s] lt show ?thesis by simp
    qed
  next
    case Stop
    with "1.prems"(1) have "st' = st\<lparr>requests := Suc (requests st)\<rparr>"
      by (simp add: fetch_loop_Stop)
    with "1.prems"(2) show ?thesis by simp
  next
    case (Page data)
    from "1.prems"(1) Page obtain items where it: "page_items data = Inr items"
      by (auto simp: fetch_loop_Page split: sum.splits)
    from "1.prems"(1) Page it obtain new where nw: "iterate items = Inr new"
      by (auto simp: fetch_loop_Page split: sum.splits)
    show ?thesis
    proof (cases "\<not> truthy items \<or> int (length (collected st @ new)) \<ge> max_events")
      case True
      with "1.prems"(1) Page it nw
      have "st' = st\<lparr>requests := Suc (requests st), collected := collected st @ new\<rparr>"
        by (auto simp: fetch_loop_Page)
      with "1.prems"(2) show ?thesis by simp
    next
      case False
      let ?st2 = "st\<lparr>requests := Suc (requests st),
                               collected := collected st @ new,
                               skip := skip st + take_n\<rparr>"
      from False "1.prems"(1) Page it nw
      have r: "fetch_loop server take_n max_events max_retries base_sleep ?st2 = Inr st'"
        by (auto simp: fetch_loop_Page)
      have s: "sleeps ?st2 = map (\<lambda>k. base_sleep * 2 ^ k) [0..<attempt ?st2]"
        using "1.prems"(2) by simp
      from "1.IH"(2)[OF Page it nw False r s] show ?thesis by simp
    qed
  qed
qed

text \<open>
  C4. (1) A response with a transient status (429, 500, 502, 503, 504), received while
  fewer than \<open>max_retries\<close> retries are spent, makes the loop sleep
  \<open>base_sleep * 2 ^ attempt\<close>, count one more retry and issue the request again with
  the same offset and the same collected items. (2) In every run that returns, the
  delays observed over the whole fetch are \<open>base_sleep * 2 ^ k\<close> for
  \<open>k = 0, ..., attempt - 1\<close> in this order, where \<open>attempt\<close> is the number of retries
  spent over all pages, never reset and at most \<open>max_retries\<close>. (3) When the first two
  answers are 503 and the budget is at least 2, the third request is issued after
  exactly the two delays \<open>base_sleep\<close> and \<open>2 * base_sleep\<close>. (4) With the defaults, a
  server that answers 503, 503, 200 with one item, then 200 with an empty page: the
  fetch returns the item after four requests, the delays being 0.8 and 1.6.
\<close>

theorem fetch_events_backoff:
  "(server (requests st) (skip st) = Response status body \<and> transient status
      \<and> int (attempt st) < max_retries \<and> 0 \<le> base_sleep
    \<longrightarrow> fetch_loop server take_n max_events max_retries base_sleep st
        = fetch_loop server take_n max_events max_retries base_sleep
            (st\<lparr>requests := Suc (requests st),
                sleeps := sleeps st @ [base_sleep * 2 ^ attempt st],
                attempt := Suc (attempt st)\<rparr>))
   \<and> (fetch_run server take_n max_events max_retries base_sleep = Inr st'
    \<longrightarrow> sleeps st' = map (\<lambda>k. base_sleep * 2 ^ k) [0..<attempt st']
        \<and> int (attempt st') \<le> max 0 max_retries)
   \<and> (server 0 0 = Response 503 b0 \<and> server 1 0 = Response 503 b1
      \<and> 2 \<le> max_retries \<and> 0 \<le> base_sleep
    \<longrightarrow> fetch_run server take_n max_events max_retries base_sleep
        = fetch_loop server take_n max_events max_retries base_sleep
            \<lparr>collected = [], skip = 0, attempt = 2, requests = 2,
             sleeps = [base_sleep, base_sleep * 2]\<rparr>)
   \<and> fetch_run flaky_server 500 10000 5 (8/10)
        = Inr \<lparr>collected = [PInt 7], skip = 500, attempt = 2, requests = 4,
               sleeps = [8/10, 16/10]\<rparr>"
proof (intro conjI impI)
  assume a: "server (requests st) (skip st) = Response status body \<and> transient status
      \<and> int (attempt st) < max_retries \<and> 0 \<le> base_sleep"
  then have "attempt_request max_retries (attempt st) (server (requests st) (skip st)) = Retry"
    by (simp add: attempt_request_transient)
  moreover from a have "\<not> base_sleep * 2 ^ attempt st < 0"
    by (simp add: not_less)
  ultimately show "fetch_loop server take_n max_events max_retries base_sleep st
        = fetch_loop server take_n max_events max_retries base_sleep
            (st\<lparr>requests := Suc (requests st),
                sleeps := sleeps st @ [base_sleep * 2 ^ attempt st],
                attempt := Suc (attempt st)\<rparr>)"
    by (simp add: fetch_loop_Retry)
next
  assume "fetch_run server take_n max_events max_retries base_sleep = Inr st'"
  then have "sleeps st' = map (\<lambda>k. base_sleep * 2 ^ k) [0..<attempt st']
       \<and> int (attempt st') \<le> max (int (attempt
              \<lparr>collected = [], skip = 0, attempt = 0, requests = 0, sleeps = []\<rparr>)) max_retries"
    unfolding fetch_run_def by (rule fetch_loop_sleeps) simp
  then show "sleeps st' = map (\<lambda>k. base_sleep * 2 ^ k) [0..<attempt st']"
    and "int (attempt st') \<le> max 0 max_retries"
    by simp_all
next
  assume a: "server 0 0 = Response 503 b0 \<and> server 1 0 = Response 503 b1
      \<and> 2 \<le> max_retries \<and> 0 \<le> base_sleep"
  have t: "transient 503" by (simp add: transient_def)
  from a have r0: "attempt_request max_retries 0 (server 0 0) = Retry"
    using attempt_request_transient [OF t, of 0 max_retries b0] by simp
  from a have r1: "attempt_request max_retries (Suc 0) (server (Suc 0) 0) = Retry"
    using attempt_request_transient [OF t, of 1 max_retries b1] by simp
  from a have n0: "\<not> base_sleep < 0" and n1: "\<not> base_sleep * 2 < 0"
    by simp_all
  show "fetch_run server take_n max_events max_retries base_sleep
        = fetch_loop server take_n max_events max_retries base_sleep
            \<lparr>collected = [], skip = 0, attempt = 2, requests = 2,
             sleeps = [base_sleep, base_sleep * 2]\<rparr>"
    unfolding fetch_run_def
    by (simp add: fetch_loop_Retry r0 r1 n0 n1 numeral_2_eq_2)
next
  show "fetch_run flaky_server 500 10000 5 (8/10)
        = Inr \<lparr>collected = [PInt 7], skip = 500, attempt = 2, requests = 4,
               sleeps = [8/10, 16/10]\<rparr>"
    by (rule fetch_run_flaky)
qed

text \<open>
  The parts of C4 at the server that answers 503 twice and then 200.
\<close>

theorem fetch_events_backoff_witness:
  "fetch_loop flaky_server 500 10000 5 (8/10)
       \<lparr>collected = [], skip = 0, attempt = 0, requests = 0, sleeps = []\<rparr>
     = fetch_loop flaky_server 500 10000 5 (8/10)
         \<lparr>collected = [], skip = 0, attempt = 1, requests = 1, sleeps = [8/10]\<rparr>
   \<and> [8/10, 16/10 :: real] = map (\<lambda>k. (8/10) * 2 ^ k) [0..<2]
   \<and> fetch_run flaky_server 500 10000 5 (8/10)
     = fetch_loop flaky_server 500 10000 5 (8/10)
         \<lparr>collected = [], skip = 0, attempt = 2, requests = 2, sleeps = [8/10, (8/10) * 2]\<rparr>"
proof -
  let ?st0 = "\<lparr>collected = [], skip = 0, attempt = 0, requests = 0, sleeps = []\<rparr> :: fetch_state"
  have h1: "flaky_server (requests ?st0) (skip ?st0) = Response 503 None \<and> transient 503
      \<and> int (attempt ?st0) < 5 \<and> (0::real) \<le> 8/10"
    by (simp add: flaky_server_def transient_def)
  have h3: "flaky_server 0 0 = Response 503 None \<and> flaky_server 1 0 = Response 503 None
      \<and> (2::int) \<le> 5 \<and> (0::real) \<le> 8/10"
    by (simp add: flaky_server_def)
  note T = fetch_events_backoff [where server = flaky_server and max_retries = 5
             and base_sleep = "8/10" and take_n = 500 and max_events = 10000]
  have r1: "fetch_loop flaky_server 500 10000 5 (8/10) ?st0
     = fetch_loop flaky_server 500 10000 5 (8/10)
         (?st0\<lparr>requests := Suc (requests ?st0),
                sleeps := sleeps ?st0 @ [(8/10) * 2 ^ attempt ?st0],
                attempt := Suc (attempt ?st0)\<rparr>)"
    by (rule T [THEN conjunct1, rule_format, OF h1])
  have r2: "sleeps \<lparr>collected = [PInt 7], skip = 500, attempt = 2, requests = 4,
               sleeps = [8/10, 16/10]\<rparr>
      = map (\<lambda>k. (8/10) * 2 ^ k) [0..<attempt \<lparr>collected = [PInt 7], skip = 500, attempt = 2,
               requests = 4, sleeps = [8/10, 16/10]\<rparr>]
      \<and> int (attempt \<lparr>collected = [PInt 7], skip = 500, attempt = 2, requests = 4,
               sleeps = [8/10, 16/10 :: real]\<rparr>) \<le> max 0 5"
    by (rule T [THEN conjunct2, THEN conjunct1, rule_format, OF fetch_run_flaky])
  have r3: "fetch_run flaky_server 500 10000 5 (8/10)
     = fetch_loop flaky_server 500 10000 5 (8/10)
         \<lparr>collected = [], skip = 0, attempt = 2, requests = 2, sleeps = [8/10, (8/10) * 2]\<rparr>"
    by (rule T [THEN conjunct2, THEN conjunct2, THEN conjunct1, rule_format, OF h3])
  from r1 have "fetch_loop flaky_server 500 10000 5 (8/10) ?st0
     = fetch_loop flaky_server 500 10000 5 (8/10)
         \<lparr>collected = [], skip = 0, attempt = 1, requests = 1, sleeps = [8/10]\<rparr>"
    by simp
  moreover from r2 have "[8/10, 16/10 :: real] = map (\<lambda>k. (8/10) * 2 ^ k) [0..<2::nat]"
    by simp
  ultimately show ?thesis using r3 by (intro conjI)
qed

text \<open>
  The failures that end the loop inside the \<^verbatim>\<open>try\<close> block: an exception of the
  request, status 401, a transient status with the retries spent, a body that is not
  JSON.
\<close>

lemma attempt_request_fatal:
  "attempt_request max_retries a ConnectionError = Stop"
  "attempt_request max_retries a (Response 401 body) = Stop"
  "transient status \<Longrightarrow> \<not> int a < max_retries \<Longrightarrow>
     attempt_request max_retries a (Response status body) = Stop"
  "attempt_request max_retries a (Response 200 None) = Stop"
  by (auto simp: attempt_request_def transient_def raises_for_status_def)


subsection \<open>Dedup and aggregation pipeline\<close>

























lemma apply_extract_identity_length:
  "apply_extract_identity loads cs = Inr ids \<Longrightarrow> length ids = length cs"
  by (induction cs arbitrary: ids) (auto split: sum.splits)

lemma user_id_column_length:
  "user_id_column L raw kept = Inr uids \<Longrightarrow> length uids = length kept"
  by (auto simp: user_id_column_def dest: apply_extract_identity_length split: sum.splits if_splits)

lemma dropna_datetime_parsed:
  "map fst (dropna_datetime (zip raw (map g raw))) = filter (\<lambda>e. g e \<noteq> None) raw
   \<and> (\<forall>et\<in>set (dropna_datetime (zip raw (map g raw))). g (fst et) = Some (snd et))"
proof (induction raw)
  case Nil
  show ?case by simp
next
  case (Cons e raw)
  then show ?case by (cases "g e") auto
qed

lemma normalized_columns:
  "length uids = length kept \<Longrightarrow>
   map raw_event (map (normalized tz start_h end_h) (zip kept uids)) = map fst kept
   \<and> map datetime_utc (map (normalized tz start_h end_h) (zip kept uids)) = map snd kept
   \<and> map user_id (map (normalized tz start_h end_h) (zip kept uids)) = uids"
  by (induction uids kept rule: list_induct2) (simp_all add: normalized_def)

lemma preprocess_rows:
  assumes res: "preprocess_and_unique L raw tz_name start_h end_h = Inr (df, dfu)"
    and ne: "\<not> df_empty raw"
  shows "\<exists>tz uids. zone_info L tz_name = Some tz
           \<and> length uids = length (dropna_datetime (zip raw (datetime_utc_column L raw)))
           \<and> df = map (normalized tz start_h end_h)
                     (zip (dropna_datetime (zip raw (datetime_utc_column L raw))) uids)"
proof (cases "zone_info L tz_name")
  case None
  with res ne show ?thesis by (simp add: preprocess_and_unique_def)
next
  case (Some tz)
  let ?kept = "dropna_datetime (zip raw (datetime_utc_column L raw))"
  show ?thesis
  proof (cases "user_id_column L raw ?kept")
    case (Inl err)
    with res ne Some show ?thesis by (simp add: preprocess_and_unique_def)
  next
    case (Inr uids)
    with res ne Some have "df = map (normalized tz start_h end_h) (zip ?kept uids)"
      by (simp add: preprocess_and_unique_def Let_def)
    with Some user_id_column_length [OF Inr] show ?thesis by blast
  qed
qed

lemma preprocess_rows_parsed:
  assumes res: "preprocess_and_unique L raw tz_name start_h end_h = Inr (df, dfu)"
    and col: "datetime_utc_column L raw = map g raw"
  shows "map raw_event df = filter (\<lambda>e. g e \<noteq> None) raw
       \<and> (\<forall>r\<in>set df. g (raw_event r) = Some (datetime_utc r))"
proof (cases "df_empty raw")
  case True
  with res have "df = []" by (simp add: preprocess_and_unique_def)
  moreover from True have "parse_column L raw ''storageDate'' = map (\<lambda>e. None) raw"
      and "\<not> has_column raw ''eventDate''"
    by (auto simp: parse_column_def parse_cell_def cell_def df_empty_def has_column_def
          list_all_iff list_ex_iff)
  then have "datetime_utc_column L raw = map (\<lambda>e. None) raw"
    by (simp add: datetime_utc_column_def)
  with col have "\<forall>e\<in>set raw. g e = None" by auto
  then have "filter (\<lambda>e. g e \<noteq> None) raw = []" by (simp add: filter_empty_conv)
  ultimately show ?thesis by simp
next
  case False
  let ?kept = "dropna_datetime (zip raw (map g raw))"
  from preprocess_rows [OF res False] col
  obtain tz uids where len: "length uids = length ?kept"
    and df: "df = map (normalized tz start_h end_h) (zip ?kept uids)"
    by auto
  note cols = normalized_columns [OF len, of tz start_h end_h]
  from cols have re: "map raw_event df = map fst ?kept" 
    and dt: "map datetime_utc df = map snd ?kept"
    unfolding df by simp_all
  note dp = dropna_datetime_parsed [of raw g]
  have "\<forall>r\<in>set df. g (raw_event r) = Some (datetime_utc r)"
  proof
    fix r assume "r \<in> set df"
    then obtain et u where "(et, u) \<in> set (zip ?kept uids)"
      and r: "r = normalized tz start_h end_h (et, u)"
      unfolding df by auto
    then have "et \<in> set ?kept" by (auto dest: set_zip_leftD)
    with dp have "g (fst et) = Some (snd et)" by blast
    with r show "g (raw_event r) = Some (datetime_utc r)"
      by (simp add: normalized_def)
  qed
  with re dp show ?thesis by simp
qed

lemma isna_all_parse_column:
  "isna_all (parse_column L raw k) = (\<forall>e\<in>set raw. parse_cell L k e = None)"
  by (simp add: isna_all_def parse_column_def list_all_iff)

text \<open>
  C10. When at least one record has a parseable \<^verbatim>\<open>storageDate\<close>, the normalized
  table holds exactly the records whose \<^verbatim>\<open>storageDate\<close> parses, in input order, each
  with that timestamp: a record whose \<^verbatim>\<open>storageDate\<close> does not parse is dropped,
  whatever its \<^verbatim>\<open>eventDate\<close>. \<^verbatim>\<open>eventDate\<close> is read only when no
  \<^verbatim>\<open>storageDate\<close> of the batch parses and the column exists; then it is read for every
  record. Without the column the table is empty.
\<close>

theorem timestamp_fallback_all_or_nothing:
  "preprocess_and_unique L raw tz_name start_h end_h = Inr (df, dfu)
   \<longrightarrow> ((\<exists>x\<in>set raw. parse_cell L ''storageDate'' x \<noteq> None)
        \<longrightarrow> map raw_event df = filter (\<lambda>e. parse_cell L ''storageDate'' e \<noteq> None) raw
          \<and> (\<forall>r\<in>set df. parse_cell L ''storageDate'' (raw_event r) = Some (datetime_utc r))
          \<and> (\<forall>e. parse_cell L ''storageDate'' e = None \<longrightarrow> e \<notin> raw_event ` set df))
     \<and> ((\<forall>x\<in>set raw. parse_cell L ''storageDate'' x = None) \<and> has_column raw ''eventDate''
        \<longrightarrow> map raw_event df = filter (\<lambda>e. parse_cell L ''eventDate'' e \<noteq> None) raw
          \<and> (\<forall>r\<in>set df. parse_cell L ''eventDate'' (raw_event r) = Some (datetime_utc r)))
     \<and> ((\<forall>x\<in>set raw. parse_cell L ''storageDate'' x = None) \<and> \<not> has_column raw ''eventDate''
        \<longrightarrow> df = [])"
proof (intro impI conjI)
  assume res: "preprocess_and_unique L raw tz_name start_h end_h = Inr (df, dfu)"
  {
    assume "\<exists>x\<in>set raw. parse_cell L ''storageDate'' x \<noteq> None"
    then have "\<not> isna_all (parse_column L raw ''storageDate'')"
      by (simp add: isna_all_parse_column)
    then have "datetime_utc_column L raw = map (parse_cell L ''storageDate'') raw"
      by (simp add: datetime_utc_column_def parse_column_def [symmetric])
    from preprocess_rows_parsed [OF res this]
    show a: "map raw_event df = filter (\<lambda>e. parse_cell L ''storageDate'' e \<noteq> None) raw"
      and b: "\<forall>r\<in>set df. parse_cell L ''storageDate'' (raw_event r) = Some (datetime_utc r)"
      by simp_all
    from b show "\<forall>e. parse_cell L ''storageDate'' e = None \<longrightarrow> e \<notin> raw_event ` set df"
      by auto
  }
  {
    assume "(\<forall>x\<in>set raw. parse_cell L ''storageDate'' x = None) \<and> has_column raw ''eventDate''"
    then have "isna_all (parse_column L raw ''storageDate'') \<and> has_column raw ''eventDate''"
      by (simp add: isna_all_parse_column)
    then have "datetime_utc_column L raw = map (parse_cell L ''eventDate'') raw"
      by (simp add: datetime_utc_column_def parse_column_def [symmetric])
    from preprocess_rows_parsed [OF res this]
    show "map raw_event df = filter (\<lambda>e. parse_cell L ''eventDate'' e \<noteq> None) raw"
      and "\<forall>r\<in>set df. parse_cell L ''eventDate'' (raw_event r) = Some (datetime_utc r)"
      by simp_all
  }
  {
    assume a: "(\<forall>x\<in>set raw. parse_cell L ''storageDate'' x = None) \<and> \<not> has_column raw ''eventDate''"
    then have "\<not> has_column raw ''eventDate''"
      by simp
    then have "datetime_utc_column L raw = map (parse_cell L ''storageDate'') raw"
      by (simp add: datetime_utc_column_def parse_column_def [symmetric])
    from preprocess_rows_parsed [OF res this] a
    have "map raw_event df = []" by (simp add: filter_empty_conv)
    then show "df = []" by simp
  }
qed

lemma preprocess_mixed_events:
  "preprocess_and_unique stable_lib [ev_a, ev_bad_storage] ''UTC'' 9 18
     = Inr ([utc_row 9 18 ev_a (10 * hour_ns) (PStr ''u1'')],
            [utc_row 9 18 ev_a (10 * hour_ns) (PStr ''u1'')])"
  by code_simp

lemma preprocess_event_date_only:
  "preprocess_and_unique stable_lib [ev_bad_storage] ''UTC'' 9 18
     = Inr ([utc_row 9 18 ev_bad_storage hour_ns PNone], [])"
  by code_simp

lemma preprocess_no_dates:
  "preprocess_and_unique stable_lib [ev_no_dates] ''UTC'' 9 18 = Inr ([], [])"
  by code_simp

text \<open>
  A record with an unparseable \<^verbatim>\<open>storageDate\<close> and a parseable \<^verbatim>\<open>eventDate\<close> is
  dropped next to a record with a parseable \<^verbatim>\<open>storageDate\<close>, and kept when alone;
  a batch without any parseable date gives the empty table.
\<close>

theorem timestamp_fallback_all_or_nothing_witness:
  "parse_cell stable_lib ''eventDate'' ev_bad_storage = Some hour_ns
   \<and> ev_bad_storage \<notin> raw_event ` set [utc_row 9 18 ev_a (10 * hour_ns) (PStr ''u1'')]
   \<and> map raw_event [utc_row 9 18 ev_bad_storage hour_ns PNone]
       = filter (\<lambda>e. parse_cell stable_lib ''eventDate'' e \<noteq> None) [ev_bad_storage]
   \<and> ([] :: row list) = []"
proof -
  have p4: "parse_cell stable_lib ''storageDate'' ev_no_dates = None"
    by code_simp
  have h3: "(\<forall>x\<in>set [ev_no_dates]. parse_cell stable_lib ''storageDate'' x = None)
      \<and> \<not> has_column [ev_no_dates] ''eventDate''"
    using p4 by (simp add: has_column_def ev_no_dates_def)
  have c: "([] :: row list) = []"
    by (rule timestamp_fallback_all_or_nothing [THEN mp, OF preprocess_no_dates,
         THEN conjunct2, THEN conjunct2, THEN mp, OF h3])
  have p1: "parse_cell stable_lib ''storageDate'' ev_a \<noteq> None"
    by code_simp
  have p2: "parse_cell stable_lib ''storageDate'' ev_bad_storage = None"
    by code_simp
  have p3: "parse_cell stable_lib ''eventDate'' ev_bad_storage = Some hour_ns"
    by code_simp
  have h1: "\<exists>x\<in>set [ev_a, ev_bad_storage]. parse_cell stable_lib ''storageDate'' x \<noteq> None"
    using p1 by simp
  have h2: "(\<forall>x\<in>set [ev_bad_storage]. parse_cell stable_lib ''storageDate'' x = None)
      \<and> has_column [ev_bad_storage] ''eventDate''"
    using p2 by (simp add: has_column_def ev_bad_storage_def)
  from timestamp_fallback_all_or_nothing [THEN mp, OF preprocess_mixed_events,
         THEN conjunct1, THEN mp, OF h1] p2
  have a: "ev_bad_storage \<notin> raw_event ` set [utc_row 9 18 ev_a (10 * hour_ns) (PStr ''u1'')]"
    by blast
  from timestamp_fallback_all_or_nothing [THEN mp, OF preprocess_event_date_only,
         THEN conjunct2, THEN conjunct1, THEN mp, OF h2]
  have b: "map raw_event [utc_row 9 18 ev_bad_storage hour_ns PNone]
       = filter (\<lambda>e. parse_cell stable_lib ''eventDate'' e \<noteq> None) [ev_bad_storage]"
    by (rule conjunct1)
  from p3 a b c show ?thesis by (intro conjI)
qed








text \<open>
  C9. On an empty list of raw events \<^verbatim>\<open>preprocess_and_unique\<close> returns two empty
  tables, whatever the library does (the zone is not even looked up), and
  \<^verbatim>\<open>summarize\<close> of the empty table returns the total 0 and four empty tables; no
  division takes place.
\<close>

theorem empty_input_tables:
  "preprocess_and_unique L [] tz_name start_h end_h = Inr ([], [])
   \<and> summarize [] = \<lparr>total = 0, resumo = [], semana = [], dia = [], hora_tbl = []\<rparr>"
  by (simp add: preprocess_and_unique_def df_empty_def summarize_def)

end
